theory Spec2Isabelle
  imports Main "HOL-Library.Sublist"
begin

section \<open>The undo feature's base command (ckeditor5-undo, basecommand.js)\<close>

text \<open>
  The development embeds \<^verbatim>\<open>packages/ckeditor5-undo/src/basecommand.js\<close>: the class
  \<^verbatim>\<open>BaseCommand\<close> (its stack of saved batches and the restoring of a selection) and the
  module functions \<^verbatim>\<open>transformDelta\<close>, \<^verbatim>\<open>transformSelectionRange\<close> and
  \<^verbatim>\<open>transformRangesByDeltas\<close>. Mutation of \<^verbatim>\<open>this\<close> and of arrays is explicit state
  passing: every method takes the command and returns the command after the call.
\<close>

subsection \<open>Data\<close>

text \<open>
  A position of the engine's model. The file reads only \<^verbatim>\<open>position.root\<close>; the rest of a
  position is its path in the tree.
\<close>

record 'r position =
  root :: 'r
  path :: "nat list"

text \<open>A range, \<^verbatim>\<open>{ start, end }\<close>. (\<^verbatim>\<open>end\<close> is written \<open>end'\<close>.)\<close>

record 'r range =
  start :: "'r position"
  end' :: "'r position"

text \<open>\<^verbatim>\<open>operation.nodes\<close>, of which the file reads \<^verbatim>\<open>maxOffset\<close>.\<close>

record node_list =
  maxOffset :: nat

text \<open>
  An operation as \<^verbatim>\<open>transformRangesByDeltas\<close> reads it: the string \<^verbatim>\<open>type\<close> selects the
  branch, and each branch reads the fields of its kind of operation.
\<close>

record 'r operation =
  type :: string
  position :: "'r position"
  nodes :: node_list
  sourcePosition :: "'r position"
  targetPosition :: "'r position"
  howMany :: nat

record 'r delta =
  operations :: "'r operation list"

text \<open>
  The selection of the document, and the snapshot \<^verbatim>\<open>{ ranges, isBackward }\<close> that
  \<^verbatim>\<open>addBatch\<close> stores.
\<close>

record 'r selection =
  ranges :: "'r range list"
  isBackward :: bool

record 'r document =
  selection :: "'r selection"
  graveyard :: 'r

record 'r editor =
  document :: "'r document"

text \<open>An item of the stack, \<^verbatim>\<open>{ batch, selection }\<close>. Batches are opaque to this file.\<close>

record ('b, 'r) stack_item =
  batch :: 'b
  selection :: "'r selection"

text \<open>
  The command object: \<^verbatim>\<open>this.editor\<close>, \<^verbatim>\<open>this._stack\<close>, \<^verbatim>\<open>this._createdBatches\<close> (a
  \<^verbatim>\<open>WeakSet\<close>, here a set) and the observable flag \<^verbatim>\<open>isEnabled\<close> of the \<^verbatim>\<open>Command\<close> class.
\<close>

record ('b, 'r) BaseCommand =
  editor :: "'r editor"
  stack :: "('b, 'r) stack_item list"
  createdBatches :: "'b set"
  isEnabled :: bool

text \<open>
  What the file calls and does not define: the methods of \<^verbatim>\<open>engine.model.Position\<close> and
  \<^verbatim>\<open>engine.model.Range\<close>, whose classes are outside this package, and the runtime's
  \<^verbatim>\<open>Array.prototype.sort\<close>, here \<open>arraySort\<close>. The standard leaves the order that
  \<^verbatim>\<open>sort\<close> gives to the implementation when the comparison function is not consistent.
  All of them are parameters of everything below.
\<close>

record 'r engine =
  isBefore :: "'r position \<Rightarrow> 'r position \<Rightarrow> bool"
  isTouching :: "'r position \<Rightarrow> 'r position \<Rightarrow> bool"
  getTransformedByInsertion :: "'r range \<Rightarrow> 'r position \<Rightarrow> nat \<Rightarrow> bool \<Rightarrow> 'r range list"
  getTransformedByMove ::
    "'r range \<Rightarrow> 'r position \<Rightarrow> 'r position \<Rightarrow> nat \<Rightarrow> bool \<Rightarrow> 'r range list"
  arraySort :: "('r range \<Rightarrow> 'r range \<Rightarrow> int) \<Rightarrow> 'r range list \<Rightarrow> 'r range list"

subsection \<open>JavaScript arrays\<close>

text \<open>\<^verbatim>\<open>xs[i]\<close>: \<^verbatim>\<open>undefined\<close> (here \<open>None\<close>) outside \<open>0 .. length - 1\<close>.\<close>

definition js_get :: "'a list \<Rightarrow> int \<Rightarrow> 'a option" where
  "js_get xs i = (if 0 \<le> i \<and> i < int (length xs) then Some (xs ! nat i) else None)"

text \<open>
  \<^verbatim>\<open>xs.splice( from, deleteCount, ...items )\<close>, the array after the call: a negative
  \<^verbatim>\<open>from\<close> counts from the end, and both numbers are clamped to the array.
\<close>

definition splice :: "'a list \<Rightarrow> int \<Rightarrow> nat \<Rightarrow> 'a list \<Rightarrow> 'a list" where
  "splice xs from deleteCount items =
     (let len = int (length xs);
          actualStart = nat (if from < 0 then max (len + from) 0 else min from len);
          actualDeleteCount = min deleteCount (length xs - actualStart)
      in take actualStart xs @ items @ drop (actualStart + actualDeleteCount) xs)"

subsection \<open>The stack\<close>

text \<open>\<^verbatim>\<open>_checkEnabled()\<close>: \<^verbatim>\<open>return this._stack.length > 0\<close>.\<close>

definition checkEnabled :: "('b, 'r) BaseCommand \<Rightarrow> bool" where
  "checkEnabled this = (length (stack this) > 0)"

text \<open>
  Modelled from the spec: \<^verbatim>\<open>refreshState()\<close> is inherited from the \<^verbatim>\<open>Command\<close> class
  (core/command/command.js), which is not part of this package. The specification has it
  recompute enablement, with \<^verbatim>\<open>_checkEnabled\<close> as the sole predicate.
\<close>

definition refreshState :: "('b, 'r) BaseCommand \<Rightarrow> ('b, 'r) BaseCommand" where
  "refreshState this = this\<lparr>isEnabled := checkEnabled this\<rparr>"

text \<open>
  The constructor. \<^verbatim>\<open>super( editor )\<close> is the constructor of \<^verbatim>\<open>Command\<close>; whatever value
  it leaves in the flag is the argument \<open>superEnabled\<close>.
\<close>

definition new_BaseCommand :: "'r editor \<Rightarrow> bool \<Rightarrow> ('b, 'r) BaseCommand" where
  "new_BaseCommand ed superEnabled =
     refreshState \<lparr>editor = ed, stack = [], createdBatches = {}, isEnabled = superEnabled\<rparr>"

text \<open>\<^verbatim>\<open>addBatch( batch )\<close>.\<close>

definition addBatch :: "'b \<Rightarrow> ('b, 'r) BaseCommand \<Rightarrow> ('b, 'r) BaseCommand" where
  "addBatch b this =
     (let sel = \<lparr>ranges = ranges (document.selection (document (editor this))),
                 isBackward = isBackward (document.selection (document (editor this)))\<rparr>
      in refreshState (this\<lparr>stack := stack this @ [\<lparr>batch = b, selection = sel\<rparr>]\<rparr>))"

text \<open>\<^verbatim>\<open>clearStack()\<close>.\<close>

definition clearStack :: "('b, 'r) BaseCommand \<Rightarrow> ('b, 'r) BaseCommand" where
  "clearStack this = refreshState (this\<lparr>stack := []\<rparr>)"

text \<open>
  Modelled from the spec: the pop of the undo and redo commands (undocommand.js,
  redocommand.js), which are not part of this file. The specification has it remove the
  top-of-stack entry and return it, and re-evaluate enablement; on an empty stack it is a
  precondition violation, here \<open>None\<close>.
\<close>

definition popBatch ::
  "('b, 'r) BaseCommand \<Rightarrow> (('b, 'r) stack_item \<times> ('b, 'r) BaseCommand) option" where
  "popBatch this =
     (if stack this = [] then None
      else Some (last (stack this), refreshState (this\<lparr>stack := butlast (stack this)\<rparr>)))"

text \<open>
  The mutations of the stack. A pop that violates its precondition changes nothing and is
  \<open>None\<close>. \<open>states_after\<close> lists the command after each mutation of a sequence that
  took place.
\<close>

datatype 'b mutation = AddBatch 'b | ClearStack | Pop

fun mutate :: "'b mutation \<Rightarrow> ('b, 'r) BaseCommand \<Rightarrow> ('b, 'r) BaseCommand option" where
  "mutate (AddBatch b) this = Some (addBatch b this)"
| "mutate ClearStack this = Some (clearStack this)"
| "mutate Pop this = map_option snd (popBatch this)"

fun states_after ::
  "'b mutation list \<Rightarrow> ('b, 'r) BaseCommand \<Rightarrow> ('b, 'r) BaseCommand list" where
  "states_after [] this = []"
| "states_after (m # ms) this =
     (case mutate m this of
        None \<Rightarrow> states_after ms this
      | Some this' \<Rightarrow> this' # states_after ms this')"

subsection \<open>Transforming ranges\<close>

text \<open>
  The \<^verbatim>\<open>switch ( operation.type )\<close> of \<^verbatim>\<open>transformRangesByDeltas\<close> for one range:
  \<open>None\<close> is the \<^verbatim>\<open>result\<close> that stays \<^verbatim>\<open>undefined\<close> when no case matches.
\<close>

definition transformResult ::
  "'r engine \<Rightarrow> 'r operation \<Rightarrow> 'r range \<Rightarrow> 'r range list option" where
  "transformResult E operation r =
     (if type operation = ''insert'' then
        Some (getTransformedByInsertion E r (position operation)
                (maxOffset (nodes operation)) True)
      else if type operation = ''move'' \<or> type operation = ''remove''
              \<or> type operation = ''reinsert'' then
        Some (getTransformedByMove E r (sourcePosition operation)
                (targetPosition operation) (howMany operation) True)
      else None)"

text \<open>
  The loop \<^verbatim>\<open>for ( let i = 0; i < ranges.length; i++ )\<close> for one operation, from index
  \<open>i\<close>. An array is truthy also when it is empty, so \<^verbatim>\<open>if ( result )\<close> asks whether a
  case matched. \<^verbatim>\<open>i = i + result.length - 1\<close> and the loop's \<^verbatim>\<open>i++\<close> together add
  \<open>result.length\<close>.
\<close>

function transformRangesByOperation ::
  "'r engine \<Rightarrow> 'r operation \<Rightarrow> nat \<Rightarrow> 'r range list \<Rightarrow> 'r range list" where
  "transformRangesByOperation E operation i rs =
     (if i < length rs then
        (case transformResult E operation (rs ! i) of
           None \<Rightarrow> transformRangesByOperation E operation (i + 1) rs
         | Some result \<Rightarrow>
             transformRangesByOperation E operation (i + length result)
               (splice rs (int i) 1 result))
      else rs)"
  by pat_completeness auto
termination
  by (relation "measure (\<lambda>(E, operation, i, rs). length rs - i)")
     (auto simp: splice_def Let_def)

text \<open>\<^verbatim>\<open>for ( let operation of delta.operations )\<close>.\<close>

fun transformRangesByOperations ::
  "'r engine \<Rightarrow> 'r operation list \<Rightarrow> 'r range list \<Rightarrow> 'r range list" where
  "transformRangesByOperations E [] rs = rs"
| "transformRangesByOperations E (operation # rest) rs =
     transformRangesByOperations E rest (transformRangesByOperation E operation 0 rs)"

text \<open>\<^verbatim>\<open>transformRangesByDeltas( ranges, deltas )\<close>: \<^verbatim>\<open>for ( let delta of deltas )\<close>.\<close>

fun transformRangesByDeltas ::
  "'r engine \<Rightarrow> 'r range list \<Rightarrow> 'r delta list \<Rightarrow> 'r range list" where
  "transformRangesByDeltas E rs [] = rs"
| "transformRangesByDeltas E rs (d # deltas) =
     transformRangesByDeltas E (transformRangesByOperations E (operations d) rs) deltas"

text \<open>
  What one range of the working set becomes under one operation: the result of the
  \<^verbatim>\<open>switch\<close> when a case matched, the range itself otherwise.
\<close>

definition transformedOnce :: "'r engine \<Rightarrow> 'r operation \<Rightarrow> 'r range \<Rightarrow> 'r range list" where
  "transformedOnce E operation r =
     (case transformResult E operation r of None \<Rightarrow> [r] | Some result \<Rightarrow> result)"

text \<open>
  The comparison function that \<^verbatim>\<open>transformSelectionRange\<close> sorts by:
  \<^verbatim>\<open>( a, b ) => a.start.isBefore( b.start ) ? -1 : 1\<close>. It is never 0.
\<close>

definition compareByStart :: "'r engine \<Rightarrow> 'r range \<Rightarrow> 'r range \<Rightarrow> int" where
  "compareByStart E a b = (if isBefore E (start a) (start b) then - 1 else 1)"

text \<open>
  The merging loop of \<^verbatim>\<open>transformSelectionRange\<close>, from index \<open>i\<close> (it starts at 1):
  \<^verbatim>\<open>a.end = b.end\<close> writes into the range at \<open>i - 1\<close>, \<^verbatim>\<open>splice( i, 1 )\<close> removes the
  one at \<open>i\<close>, and \<^verbatim>\<open>i--\<close> with the loop's \<^verbatim>\<open>i++\<close> keeps the index.
\<close>

function mergeTouching :: "'r engine \<Rightarrow> nat \<Rightarrow> 'r range list \<Rightarrow> 'r range list" where
  "mergeTouching E i transformed =
     (if i < length transformed then
        (let a = transformed ! (i - 1); b = transformed ! i
         in if isTouching E (end' a) (start b) then
              mergeTouching E (Suc (i - 1))
                (splice (transformed[i - 1 := a\<lparr>end' := end' b\<rparr>]) (int i) 1 [])
            else mergeTouching E (i + 1) transformed)
      else transformed)"
  by pat_completeness auto
termination
  by (relation "measure (\<lambda>(E, i, transformed). length transformed - i)")
     (auto simp: splice_def Let_def)

text \<open>\<^verbatim>\<open>transformSelectionRange( range, deltas )\<close>.\<close>

definition transformSelectionRange ::
  "'r engine \<Rightarrow> 'r range \<Rightarrow> 'r delta list \<Rightarrow> 'r range list" where
  "transformSelectionRange E r deltas =
     (let transformed = transformRangesByDeltas E [r] deltas;
          transformed = arraySort E (compareByStart E) transformed
      in mergeTouching E 1 transformed)"



subsection \<open>Restoring the selection\<close>

text \<open>
  Modelled from the spec: \<^verbatim>\<open>selection.setRanges( ranges, isBackward )\<close> of the engine's
  \<^verbatim>\<open>Selection\<close> class, which is not part of this package. The specification has it install
  the ranges with the flag.
\<close>

definition setRanges :: "'r range list \<Rightarrow> bool \<Rightarrow> 'r selection \<Rightarrow> 'r selection" where
  "setRanges newRanges isLastBackward sel = \<lparr>ranges = newRanges, isBackward = isLastBackward\<rparr>"

text \<open>
  The loop \<^verbatim>\<open>for ( let range of ranges )\<close> of \<^verbatim>\<open>_restoreSelection\<close>, with the array
  \<^verbatim>\<open>selectionRanges\<close> as accumulator. A range object is truthy, so
  \<^verbatim>\<open>if ( transformedRange )\<close> asks whether \<^verbatim>\<open>find\<close> found one.
\<close>

fun restoreSelection_ranges ::
  "'r engine \<Rightarrow> 'r document \<Rightarrow> 'r delta list \<Rightarrow> 'r range list \<Rightarrow> 'r range list
     \<Rightarrow> 'r range list" where
  "restoreSelection_ranges E doc deltas [] selectionRanges = selectionRanges"
| "restoreSelection_ranges E doc deltas (r # rest) selectionRanges =
     (let transformedRanges = transformSelectionRange E r deltas;
          transformedRange = find (\<lambda>range. root (start range) \<noteq> graveyard doc) transformedRanges
      in case transformedRange of
           None \<Rightarrow> restoreSelection_ranges E doc deltas rest selectionRanges
         | Some found \<Rightarrow>
             restoreSelection_ranges E doc deltas rest (selectionRanges @ [found]))"

text \<open>\<^verbatim>\<open>_restoreSelection( ranges, isBackward, deltas )\<close>.\<close>

definition restoreSelection ::
  "'r engine \<Rightarrow> 'r range list \<Rightarrow> bool \<Rightarrow> 'r delta list \<Rightarrow> ('b, 'r) BaseCommand
     \<Rightarrow> ('b, 'r) BaseCommand" where
  "restoreSelection E rs backward deltas this =
     (let doc = document (editor this);
          selectionRanges = restoreSelection_ranges E doc deltas rs []
      in if length selectionRanges \<noteq> 0 then
           this\<lparr>editor := (editor this)\<lparr>document :=
             doc\<lparr>document.selection :=
               setRanges selectionRanges backward (document.selection doc)\<rparr>\<rparr>\<rparr>
         else this)"

subsection \<open>Transforming deltas\<close>

text \<open>
  \<^verbatim>\<open>transform( a, b, isStrong )\<close> of the engine (engine/model/delta/transform.js) is a
  parameter \<open>transform\<close>; deltas are opaque, of type \<open>'d\<close>. Its first argument is
  \<^verbatim>\<open>to[ t ]\<close>, which is \<^verbatim>\<open>undefined\<close> (\<open>None\<close>) when \<open>t\<close> is outside the array.

  The loop \<^verbatim>\<open>for ( let transformBy of setToTransformBy )\<close>: the state is the index \<open>t\<close>
  and the array \<open>to\<close>.
\<close>

fun transformDelta_by ::
  "('d option \<Rightarrow> 'd \<Rightarrow> bool \<Rightarrow> 'd list) \<Rightarrow> 'd list \<Rightarrow> bool \<Rightarrow> int \<times> 'd list
     \<Rightarrow> int \<times> 'd list" where
  "transformDelta_by transform [] isStrong (t, to) = (t, to)"
| "transformDelta_by transform (transformBy # rest) isStrong (t, to) =
     (let transformed = transform (js_get to t) transformBy isStrong;
          to = splice to t 1 transformed;
          t = t - 1 + int (length transformed)
      in transformDelta_by transform rest isStrong (t, to))"

text \<open>
  The loop \<^verbatim>\<open>for ( let t = 0; t < to.length; t++ )\<close>. Nothing bounds it when \<open>transform\<close>
  returns empty arrays, so not returning is the value \<open>None\<close>.
\<close>

partial_function (option) transformDelta_to ::
  "('d option \<Rightarrow> 'd \<Rightarrow> bool \<Rightarrow> 'd list) \<Rightarrow> 'd list \<Rightarrow> bool \<Rightarrow> int \<Rightarrow> 'd list
     \<Rightarrow> 'd list option" where
  "transformDelta_to transform setToTransformBy isStrong t to =
     (if t < int (length to) then
        (let s = transformDelta_by transform setToTransformBy isStrong (t, to)
         in transformDelta_to transform setToTransformBy isStrong (fst s + 1) (snd s))
      else Some to)"

declare transformDelta_to.simps [code]

text \<open>The loop \<^verbatim>\<open>for ( let toTransform of setToTransform )\<close>, with \<^verbatim>\<open>results\<close>.\<close>

fun transformDelta_results ::
  "('d option \<Rightarrow> 'd \<Rightarrow> bool \<Rightarrow> 'd list) \<Rightarrow> 'd list \<Rightarrow> 'd list \<Rightarrow> bool \<Rightarrow> 'd list
     \<Rightarrow> 'd list option" where
  "transformDelta_results transform [] setToTransformBy isStrong results = Some results"
| "transformDelta_results transform (toTransform # rest) setToTransformBy isStrong results =
     (case transformDelta_to transform setToTransformBy isStrong 0 [toTransform] of
        None \<Rightarrow> None
      | Some to \<Rightarrow>
          transformDelta_results transform rest setToTransformBy isStrong (results @ to))"

text \<open>\<^verbatim>\<open>transformDelta( setToTransform, setToTransformBy, isStrong )\<close>.\<close>

definition transformDelta ::
  "('d option \<Rightarrow> 'd \<Rightarrow> bool \<Rightarrow> 'd list) \<Rightarrow> 'd list \<Rightarrow> 'd list \<Rightarrow> bool \<Rightarrow> 'd list option" where
  "transformDelta transform setToTransform setToTransformBy isStrong =
     transformDelta_results transform setToTransform setToTransformBy isStrong []"

text \<open>
  The transformation as the specification words it, to compare with the code: an item of
  the working list is transformed against the next delta of \<open>transformBy\<close> and replaced
  by the results of that step, and every result is then examined against the remaining
  deltas of \<open>transformBy\<close>; the lists of the input deltas are concatenated in order.
\<close>

fun transformItem_spec ::
  "('d option \<Rightarrow> 'd \<Rightarrow> bool \<Rightarrow> 'd list) \<Rightarrow> bool \<Rightarrow> 'd list \<Rightarrow> 'd \<Rightarrow> 'd list" where
  "transformItem_spec transform isStrong [] item = [item]"
| "transformItem_spec transform isStrong (transformBy # rest) item =
     concat (map (transformItem_spec transform isStrong rest)
               (transform (Some item) transformBy isStrong))"

definition transformDelta_spec ::
  "('d option \<Rightarrow> 'd \<Rightarrow> bool \<Rightarrow> 'd list) \<Rightarrow> 'd list \<Rightarrow> 'd list \<Rightarrow> bool \<Rightarrow> 'd list" where
  "transformDelta_spec transform setToTransform setToTransformBy isStrong =
     concat (map (transformItem_spec transform isStrong setToTransformBy) setToTransform)"

subsection \<open>A small engine to run the functions on\<close>

text \<open>
  Positions in flat roots: the offset is the head of the path, positions of different
  roots are not ordered, and two positions touch when they are the same.
\<close>

definition offset :: "'r position \<Rightarrow> nat" where
  "offset p = (case path p of [] \<Rightarrow> 0 | n # ns \<Rightarrow> n)"

definition at :: "'r \<Rightarrow> nat \<Rightarrow> 'r position" where
  "at r n = \<lparr>root = r, path = [n]\<rparr>"

definition flat_isBefore :: "'r position \<Rightarrow> 'r position \<Rightarrow> bool" where
  "flat_isBefore p q = (root p = root q \<and> offset p < offset q)"

definition flat_isTouching :: "'r position \<Rightarrow> 'r position \<Rightarrow> bool" where
  "flat_isTouching p q = (root p = root q \<and> offset p = offset q)"

text \<open>
  An insertion strictly inside a range spreads it into the part before and the shifted
  part after; an insertion at or before its start shifts it.
\<close>

definition flat_byInsertion ::
  "'r range \<Rightarrow> 'r position \<Rightarrow> nat \<Rightarrow> bool \<Rightarrow> 'r range list" where
  "flat_byInsertion r p n spread =
     (if root p \<noteq> root (start r) \<or> offset (end' r) \<le> offset p then [r]
      else if offset p \<le> offset (start r) then
        [\<lparr>start = at (root p) (offset (start r) + n), end' = at (root p) (offset (end' r) + n)\<rparr>]
      else if spread then
        [\<lparr>start = start r, end' = p\<rparr>,
         \<lparr>start = at (root p) (offset p + n), end' = at (root p) (offset (end' r) + n)\<rparr>]
      else [\<lparr>start = start r, end' = at (root p) (offset (end' r) + n)\<rparr>])"

text \<open>
  A move out of the inside of a range gives the part after the moved nodes (shifted
  back), the part before them, and the moved nodes at their target.
\<close>

definition flat_byMove ::
  "'r range \<Rightarrow> 'r position \<Rightarrow> 'r position \<Rightarrow> nat \<Rightarrow> bool \<Rightarrow> 'r range list" where
  "flat_byMove r src tgt n spread =
     (if root src = root (start r) \<and> offset (start r) < offset src
         \<and> offset src + n < offset (end' r) then
        [\<lparr>start = src, end' = at (root src) (offset (end' r) - n)\<rparr>,
         \<lparr>start = start r, end' = src\<rparr>,
         \<lparr>start = tgt, end' = at (root tgt) (offset tgt + n)\<rparr>]
      else [r])"

text \<open>
  The sort of the V8 runtime (Node) on an array of fewer than 64 elements: the run at
  the front of the array is found, reversed when it descends, and the other elements are
  put into it one by one by binary insertion.

  \<open>run_length\<close> is the loop of \<^verbatim>\<open>CountAndMakeRun\<close> that extends the run.
\<close>

fun run_length :: "('a \<Rightarrow> 'a \<Rightarrow> int) \<Rightarrow> bool \<Rightarrow> 'a \<Rightarrow> 'a list \<Rightarrow> nat \<Rightarrow> nat" where
  "run_length compareFn isDescending previousElement [] runLength = runLength"
| "run_length compareFn isDescending previousElement (currentElement # rest) runLength =
     (let order = compareFn currentElement previousElement
      in if (if isDescending then order \<ge> 0 else order < 0) then runLength
         else run_length compareFn isDescending currentElement rest (runLength + 1))"

definition countAndMakeRun :: "('a \<Rightarrow> 'a \<Rightarrow> int) \<Rightarrow> 'a list \<Rightarrow> nat \<times> 'a list" where
  "countAndMakeRun compareFn xs =
     (case xs of
        elementHigh # elementLow # rest \<Rightarrow>
          (let isDescending = compareFn elementLow elementHigh < 0;
               runLength = run_length compareFn isDescending elementLow rest 2
           in (runLength,
               if isDescending then rev (take runLength xs) @ drop runLength xs else xs))
      | _ \<Rightarrow> (length xs, xs))"

text \<open>The binary search of \<^verbatim>\<open>BinaryInsertionSort\<close> for the place of the pivot.\<close>

function binarySearch :: "('a \<Rightarrow> 'a \<Rightarrow> int) \<Rightarrow> 'a \<Rightarrow> 'a list \<Rightarrow> nat \<Rightarrow> nat \<Rightarrow> nat" where
  "binarySearch compareFn pivot xs left right =
     (if left < right then
        (let mid = left + (right - left) div 2
         in if compareFn pivot (xs ! mid) < 0 then binarySearch compareFn pivot xs left mid
            else binarySearch compareFn pivot xs (mid + 1) right)
      else left)"
  by pat_completeness auto
termination
  by (relation "measure (\<lambda>(compareFn, pivot, xs, left, right). right - left)") auto

text \<open>One round of \<^verbatim>\<open>BinaryInsertionSort\<close>: the element at \<open>k\<close> moves to its place.\<close>

definition binaryInsert :: "('a \<Rightarrow> 'a \<Rightarrow> int) \<Rightarrow> 'a list \<Rightarrow> nat \<Rightarrow> 'a list" where
  "binaryInsert compareFn xs k =
     (let pivot = xs ! k;
          left = binarySearch compareFn pivot xs 0 k
      in take left xs @ [pivot] @ take (k - left) (drop left xs) @ drop (Suc k) xs)"

definition v8_sort :: "('a \<Rightarrow> 'a \<Rightarrow> int) \<Rightarrow> 'a list \<Rightarrow> 'a list" where
  "v8_sort compareFn xs =
     (if length xs < 2 then xs
      else (let run = countAndMakeRun compareFn xs
            in foldl (binaryInsert compareFn) (snd run) [fst run..<length xs]))"

definition flat :: "'r engine" where
  "flat = \<lparr>isBefore = flat_isBefore, isTouching = flat_isTouching,
           getTransformedByInsertion = flat_byInsertion, getTransformedByMove = flat_byMove,
           arraySort = v8_sort\<rparr>"

text \<open>A document with the roots \<open>''main''\<close> and \<open>''$graveyard''\<close>, and operations on it.\<close>

definition span :: "string \<Rightarrow> nat \<Rightarrow> nat \<Rightarrow> string range" where
  "span r a b = \<lparr>start = at r a, end' = at r b\<rparr>"

definition doc0 :: "string document" where
  "doc0 = \<lparr>document.selection = \<lparr>ranges = [span ''main'' 1 2], isBackward = False\<rparr>,
           graveyard = ''$graveyard''\<rparr>"

definition cmd0 :: "(nat, string) BaseCommand" where
  "cmd0 = new_BaseCommand \<lparr>document = doc0\<rparr> True"

definition removeOp :: "nat \<Rightarrow> nat \<Rightarrow> string operation" where
  "removeOp a n = \<lparr>type = ''remove'', position = at ''main'' 0, nodes = \<lparr>maxOffset = 0\<rparr>,
                   sourcePosition = at ''main'' a, targetPosition = at ''$graveyard'' 0,
                   howMany = n\<rparr>"

definition insertOp :: "nat \<Rightarrow> nat \<Rightarrow> string operation" where
  "insertOp a n = \<lparr>type = ''insert'', position = at ''main'' a, nodes = \<lparr>maxOffset = n\<rparr>,
                   sourcePosition = at ''main'' 0, targetPosition = at ''main'' 0,
                   howMany = 0\<rparr>"



definition noOp :: "string operation" where
  "noOp = \<lparr>type = ''noop'', position = at ''main'' 0, nodes = \<lparr>maxOffset = 0\<rparr>,
           sourcePosition = at ''main'' 0, targetPosition = at ''main'' 0, howMany = 0\<rparr>"

text \<open>
  A transformation of deltas that are strings: transforming by \<open>''S''\<close> splits a delta in
  two, transforming by any other delta appends its name.
\<close>

definition split_transform :: "string option \<Rightarrow> string \<Rightarrow> bool \<Rightarrow> string list" where
  "split_transform a b isStrong =
     (case a of
        None \<Rightarrow> []
      | Some d \<Rightarrow> if b = ''S'' then [d @ ''l'', d @ ''r''] else [d @ b])"

section \<open>Properties\<close>

declare transformRangesByOperation.simps [simp del]
declare mergeTouching.simps [simp del]

subsection \<open>Arrays\<close>

lemma splice_one:
  "i < length xs \<Longrightarrow> splice xs (int i) (Suc 0) ys = take i xs @ ys @ drop (Suc i) xs"
  by (simp add: splice_def Let_def min_def)

subsection \<open>The stack and the enabled flag\<close>

lemma refreshState_fields:
  "stack (refreshState c) = stack c" "editor (refreshState c) = editor c"
  "createdBatches (refreshState c) = createdBatches c"
  "isEnabled (refreshState c) = (stack c \<noteq> [])"
  by (simp_all add: refreshState_def checkEnabled_def)

text \<open>
  C10. A freshly constructed \<^verbatim>\<open>BaseCommand\<close> has an empty stack and an empty set of
  created batches, and, the constructor having refreshed the state, it is disabled
  whatever the flag was before the refresh.
\<close>

theorem new_BaseCommand_disabled:
  "stack (new_BaseCommand ed superEnabled) = []
   \<and> createdBatches (new_BaseCommand ed superEnabled) = {}
   \<and> checkEnabled (new_BaseCommand ed superEnabled) = False
   \<and> isEnabled (new_BaseCommand ed superEnabled) = False"
  by (simp add: new_BaseCommand_def refreshState_fields checkEnabled_def)

text \<open>
  C8. \<^verbatim>\<open>addBatch\<close> pushes the batch with the document's current selection (its ranges
  and its \<^verbatim>\<open>isBackward\<close>) on the stack and recomputes the enabled flag; the editor, and so
  the document and its selection, is as before, and so is the set of created batches.
\<close>

theorem addBatch_pushes_snapshot:
  "stack (addBatch b this) =
     stack this @ [\<lparr>batch = b, selection = document.selection (document (editor this))\<rparr>]
   \<and> stack_item.selection (last (stack (addBatch b this))) =
       \<lparr>ranges = ranges (document.selection (document (editor this))),
        isBackward = isBackward (document.selection (document (editor this)))\<rparr>
   \<and> isEnabled (addBatch b this) = checkEnabled (addBatch b this)
   \<and> isEnabled (addBatch b this) = True
   \<and> editor (addBatch b this) = editor this
   \<and> createdBatches (addBatch b this) = createdBatches this"
  by (simp add: addBatch_def refreshState_fields checkEnabled_def Let_def)

lemma mutate_enabled:
  "mutate m this = Some this' \<Longrightarrow> isEnabled this' = (stack this' \<noteq> [])"
  by (cases m) (auto simp: addBatch_def clearStack_def popBatch_def refreshState_fields Let_def
      split: if_splits)

text \<open>
  C5. After every mutation of a sequence of \<^verbatim>\<open>addBatch\<close>, \<^verbatim>\<open>clearStack\<close> and pops,
  started from any command, the enabled flag says whether the stack is non-empty.
\<close>

theorem enabled_iff_stack_nonempty:
  "\<forall>c \<in> set (states_after ms this). isEnabled c = (stack c \<noteq> [])"
proof (induction ms arbitrary: this)
  case Nil
  show ?case by simp
next
  case (Cons m ms)
  show ?case
  proof (cases "mutate m this")
    case None
    with Cons.IH [of this] show ?thesis by simp
  next
    case (Some this')
    with Cons.IH [of this'] mutate_enabled [OF Some] show ?thesis by simp
  qed
qed

theorem enabled_iff_stack_nonempty_witness:
  "map isEnabled (states_after [AddBatch 1, AddBatch 2, Pop, Pop, ClearStack] cmd0)
     = [True, True, True, False, False]
   \<and> map (\<lambda>c. length (stack c))
         (states_after [AddBatch 1, AddBatch 2, Pop, Pop, ClearStack] cmd0) = [1, 2, 1, 0, 0]
   \<and> list_all (\<lambda>c. isEnabled c = (stack c \<noteq> []))
         (states_after [AddBatch 1, AddBatch 2, Pop, Pop, ClearStack] cmd0)"
  using enabled_iff_stack_nonempty [of "[AddBatch 1, AddBatch 2, Pop, Pop, ClearStack]" cmd0]
  by (simp add: cmd0_def new_BaseCommand_def addBatch_def clearStack_def popBatch_def
      refreshState_def checkEnabled_def Let_def)

subsection \<open>Transforming deltas by no delta\<close>

lemma transformDelta_to_empty:
  "transformDelta_to transform [] isStrong 0 [d] = Some [d]"
  by (subst transformDelta_to.simps, simp, subst transformDelta_to.simps, simp)

lemma transformDelta_results_empty:
  "transformDelta_results transform D [] isStrong results = Some (results @ D)"
  by (induction D arbitrary: results) (simp_all add: transformDelta_to_empty)

text \<open>
  C4. \<^verbatim>\<open>transformDelta( D, [], isStrong )\<close> returns, and returns \<open>D\<close>, for every \<open>D\<close>,
  every \<open>isStrong\<close> and every \<open>transform\<close>.
\<close>

theorem transformDelta_identity:
  "transformDelta transform D [] isStrong = Some D"
  by (simp add: transformDelta_def transformDelta_results_empty)

subsection \<open>Transforming ranges by one operation\<close>

lemma transformResult_other:
  "type operation \<notin> {''insert'', ''move'', ''remove'', ''reinsert''}
   \<Longrightarrow> transformResult E operation r = None"
  by (simp add: transformResult_def)

lemma transformRangesByOperation_other:
  "type operation \<notin> {''insert'', ''move'', ''remove'', ''reinsert''}
   \<Longrightarrow> transformRangesByOperation E operation i rs = rs"
proof (induction E operation i rs rule: transformRangesByOperation.induct)
  case (1 E operation i rs)
  show ?case
    using 1 by (subst transformRangesByOperation.simps) (simp add: transformResult_other)
qed

text \<open>
  C9. For an operation whose type is none of \<open>insert\<close>, \<open>move\<close>, \<open>remove\<close> and
  \<open>reinsert\<close> the \<^verbatim>\<open>switch\<close> gives no result for any range, and the working set comes
  back from the operation's loop, and from \<^verbatim>\<open>transformRangesByDeltas\<close> on a delta of that
  operation, exactly as it went in.
\<close>

theorem other_operation_keeps_ranges:
  assumes "type operation \<notin> {''insert'', ''move'', ''remove'', ''reinsert''}"
  shows "transformResult E operation r = None
         \<and> transformRangesByOperation E operation 0 rs = rs
         \<and> transformRangesByDeltas E rs [\<lparr>operations = [operation]\<rparr>] = rs"
  using assms
  by (simp add: transformResult_other transformRangesByOperation_other)

theorem other_operation_keeps_ranges_witness:
  "type noOp \<notin> {''insert'', ''move'', ''remove'', ''reinsert''}
   \<and> transformResult flat noOp (span ''main'' 0 10) = None
   \<and> transformRangesByOperation flat noOp 0 [span ''main'' 0 10, span ''main'' 12 14]
       = [span ''main'' 0 10, span ''main'' 12 14]
   \<and> transformRangesByDeltas flat [span ''main'' 0 10, span ''main'' 12 14]
       [\<lparr>operations = [noOp]\<rparr>] = [span ''main'' 0 10, span ''main'' 12 14]"
proof -
  have t: "type noOp \<notin> {''insert'', ''move'', ''remove'', ''reinsert''}"
    by (simp add: noOp_def)
  show ?thesis
    using t other_operation_keeps_ranges [OF t, of flat "span ''main'' 0 10"
        "[span ''main'' 0 10, span ''main'' 12 14]"]
    by simp
qed

lemma transformRangesByOperation_from:
  "i \<le> length rs \<Longrightarrow> transformRangesByOperation E operation i rs =
     take i rs @ concat (map (transformedOnce E operation) (drop i rs))"
proof (induction E operation i rs rule: transformRangesByOperation.induct)
  case (1 E operation i rs)
  show ?case
  proof (cases "i < length rs")
    case False
    with "1.prems" show ?thesis
      by (subst transformRangesByOperation.simps) simp
  next
    case True
    then have d: "drop i rs = rs ! i # drop (Suc i) rs"
      by (simp add: Cons_nth_drop_Suc)
    show ?thesis
    proof (cases "transformResult E operation (rs ! i)")
      case None
      then have t: "transformedOnce E operation (rs ! i) = [rs ! i]"
        by (simp add: transformedOnce_def)
      with None True "1.IH"(1) d show ?thesis
        by (subst transformRangesByOperation.simps)
           (simp add: take_Suc_conv_app_nth)
    next
      case (Some result)
      have "transformRangesByOperation E operation (i + length result)
              (splice rs (int i) 1 result) =
            take (i + length result) (splice rs (int i) 1 result) @
            concat (map (transformedOnce E operation)
              (drop (i + length result) (splice rs (int i) 1 result)))"
        using True Some by (intro "1.IH"(2)) (simp_all add: splice_one)
      moreover have "transformedOnce E operation (rs ! i) = result"
        using Some by (simp add: transformedOnce_def)
      ultimately show ?thesis
        using True Some d
        by (subst transformRangesByOperation.simps) (simp add: splice_one)
    qed
  qed
qed

lemma transformRangesByOperation_concat:
  "transformRangesByOperation E operation 0 rs = concat (map (transformedOnce E operation) rs)"
  by (simp add: transformRangesByOperation_from)

lemma transformRangesByOperations_foldl:
  "transformRangesByOperations E ops rs =
     foldl (\<lambda>rs operation. concat (map (transformedOnce E operation) rs)) rs ops"
  by (induction ops arbitrary: rs) (simp_all add: transformRangesByOperation_concat)

lemma transformRangesByDeltas_foldl:
  "transformRangesByDeltas E rs deltas =
     foldl (\<lambda>rs operation. concat (map (transformedOnce E operation) rs)) rs
       (concat (map operations deltas))"
  by (induction deltas arbitrary: rs) (simp_all add: transformRangesByOperations_foldl)

text \<open>
  C6. One operation's step replaces each range that was in the working set when the step
  began by its own results, once, in place: ranges produced in the step are not
  transformed again by the same operation. \<^verbatim>\<open>transformRangesByDeltas\<close> is these steps for
  the operations of the first delta in their order, then those of the second, and so on.
\<close>

theorem ranges_transformed_once_per_operation:
  "transformRangesByOperation E operation 0 rs = concat (map (transformedOnce E operation) rs)
   \<and> transformRangesByDeltas E rs deltas =
       foldl (\<lambda>rs operation. concat (map (transformedOnce E operation) rs)) rs
         (concat (map operations deltas))"
  by (simp add: transformRangesByOperation_concat transformRangesByDeltas_foldl)

text \<open>
  An insertion of three nodes at offset 4 spreads the range from 2 to 8 into two ranges;
  the second, from 7 to 11, is behind the insertion and is not shifted again by it.
\<close>

lemma ranges_transformed_once_example:
  "transformRangesByDeltas flat [span ''main'' 2 8] [\<lparr>operations = [insertOp 4 3, noOp]\<rparr>]
     = [span ''main'' 2 4, span ''main'' 7 11]"
  by code_simp

subsection \<open>Sorting and merging the transformed ranges\<close>
























lemma removed_middle:
  "transformSelectionRange flat (span ''main'' 0 10) [\<lparr>operations = [removeOp 3 3]\<rparr>]
     = [span ''main'' 0 7, span ''$graveyard'' 0 3]"
  by code_simp

subsection \<open>Restoring the selection\<close>

lemma restoreSelection_ranges_acc:
  "restoreSelection_ranges E doc deltas rs acc =
     acc @ concat (map (\<lambda>r. case find (\<lambda>c. root (start c) \<noteq> graveyard doc)
                                   (transformSelectionRange E r deltas) of
                               None \<Rightarrow> [] | Some c \<Rightarrow> [c]) rs)"
  by (induction rs arbitrary: acc) (simp_all add: Let_def split: option.splits)



lemma restoreSelection_ranges_empty:
  "(restoreSelection_ranges E doc deltas rs [] = []) =
   (\<forall>r\<in>set rs. \<forall>c\<in>set (transformSelectionRange E r deltas). root (start c) = graveyard doc)"
  by (auto simp: restoreSelection_ranges_acc find_None_iff split: option.splits)

lemma restoreSelection_cases:
  "restoreSelection E rs backward deltas this =
     (if restoreSelection_ranges E (document (editor this)) deltas rs [] = [] then this
      else this\<lparr>editor := (editor this)\<lparr>document := (document (editor this))
             \<lparr>document.selection :=
                \<lparr>ranges = restoreSelection_ranges E (document (editor this)) deltas rs [],
                 isBackward = backward\<rparr>\<rparr>\<rparr>\<rparr>)"
  by (simp add: restoreSelection_def Let_def setRanges_def)



lemma cmd0_document: "document (editor cmd0) = doc0"
  by (simp add: cmd0_def new_BaseCommand_def refreshState_def)




text \<open>
  C7. When every transformed range of every range of the snapshot starts in the graveyard,
  \<^verbatim>\<open>_restoreSelection\<close> returns the command, and with it the document's selection, as it
  was: \<^verbatim>\<open>setRanges\<close> is not called. Otherwise it installs the surviving ranges, of which
  there is at least one, together with the snapshot's \<^verbatim>\<open>isBackward\<close>.
\<close>

theorem restoreSelection_all_in_graveyard:
  "restoreSelection E rs backward deltas this =
     (if \<forall>r\<in>set rs. \<forall>c\<in>set (transformSelectionRange E r deltas).
           root (start c) = graveyard (document (editor this))
      then this
      else this\<lparr>editor := (editor this)\<lparr>document := (document (editor this))
             \<lparr>document.selection :=
                \<lparr>ranges = restoreSelection_ranges E (document (editor this)) deltas rs [],
                 isBackward = backward\<rparr>\<rparr>\<rparr>\<rparr>)
   \<and> ((\<exists>r\<in>set rs. \<exists>c\<in>set (transformSelectionRange E r deltas).
          root (start c) \<noteq> graveyard (document (editor this)))
        \<longrightarrow> restoreSelection_ranges E (document (editor this)) deltas rs [] \<noteq> [])"
  unfolding restoreSelection_cases restoreSelection_ranges_empty by simp

lemma kept_in_graveyard:
  "transformSelectionRange flat (span ''$graveyard'' 5 6) [\<lparr>operations = [removeOp 3 3]\<rparr>]
     = [span ''$graveyard'' 5 6]"
  "transformSelectionRange flat (span ''$graveyard'' 0 2) [\<lparr>operations = [removeOp 3 3]\<rparr>]
     = [span ''$graveyard'' 0 2]"
  by code_simp+

lemma cmd0_graveyard: "graveyard (document (editor cmd0)) = ''$graveyard''"
  by (simp add: cmd0_document doc0_def)

lemma in_graveyard_example:
  "\<forall>r\<in>set [span ''$graveyard'' 5 6, span ''$graveyard'' 0 2].
     \<forall>c\<in>set (transformSelectionRange flat r [\<lparr>operations = [removeOp 3 3]\<rparr>]).
       root (start c) = graveyard (document (editor cmd0))"
  by (simp add: kept_in_graveyard cmd0_graveyard) (simp add: span_def at_def)

lemma survivor_example:
  "\<exists>r\<in>set [span ''main'' 0 10, span ''$graveyard'' 0 2].
     \<exists>c\<in>set (transformSelectionRange flat r [\<lparr>operations = [removeOp 3 3]\<rparr>]).
       root (start c) \<noteq> graveyard (document (editor cmd0))"
proof -
  have "span ''main'' 0 7 \<in> set (transformSelectionRange flat (span ''main'' 0 10)
      [\<lparr>operations = [removeOp 3 3]\<rparr>])"
    by (simp add: removed_middle)
  moreover have "root (start (span ''main'' 0 7)) \<noteq> graveyard (document (editor cmd0))"
    by (simp add: cmd0_graveyard span_def at_def)
  ultimately show ?thesis by (intro bexI [where x = "span ''main'' 0 10"] bexI) simp_all
qed

theorem restoreSelection_all_in_graveyard_witness:
  "transformSelectionRange flat (span ''$graveyard'' 5 6) [\<lparr>operations = [removeOp 3 3]\<rparr>]
     = [span ''$graveyard'' 5 6]
   \<and> transformSelectionRange flat (span ''$graveyard'' 0 2) [\<lparr>operations = [removeOp 3 3]\<rparr>]
     = [span ''$graveyard'' 0 2]
   \<and> graveyard (document (editor cmd0)) = ''$graveyard''
   \<and> restoreSelection flat [span ''$graveyard'' 5 6, span ''$graveyard'' 0 2] True
        [\<lparr>operations = [removeOp 3 3]\<rparr>] cmd0 = cmd0
   \<and> (\<exists>r\<in>set [span ''main'' 0 10, span ''$graveyard'' 0 2].
        \<exists>c\<in>set (transformSelectionRange flat r [\<lparr>operations = [removeOp 3 3]\<rparr>]).
          root (start c) \<noteq> graveyard (document (editor cmd0)))
   \<and> restoreSelection_ranges flat (document (editor cmd0)) [\<lparr>operations = [removeOp 3 3]\<rparr>]
        [span ''main'' 0 10, span ''$graveyard'' 0 2] [] \<noteq> []"
proof -
  note g = in_graveyard_example
  note s = survivor_example
  have a: "restoreSelection flat [span ''$graveyard'' 5 6, span ''$graveyard'' 0 2] True
        [\<lparr>operations = [removeOp 3 3]\<rparr>] cmd0 = cmd0"
    apply (subst restoreSelection_all_in_graveyard [of flat
        "[span ''$graveyard'' 5 6, span ''$graveyard'' 0 2]" True
        "[\<lparr>operations = [removeOp 3 3]\<rparr>]" cmd0, THEN conjunct1])
    apply (rule if_P)
    apply (rule g)
    done
  have b: "restoreSelection_ranges flat (document (editor cmd0))
        [\<lparr>operations = [removeOp 3 3]\<rparr>] [span ''main'' 0 10, span ''$graveyard'' 0 2] [] \<noteq> []"
    using restoreSelection_all_in_graveyard [of flat
        "[span ''main'' 0 10, span ''$graveyard'' 0 2]" True
        "[\<lparr>operations = [removeOp 3 3]\<rparr>]" cmd0, THEN conjunct2] s
    by blast
  from kept_in_graveyard cmd0_graveyard a s b show ?thesis by (intro conjI)
qed

subsection \<open>Transforming deltas that split\<close>

text \<open>
  C1. The claim has every result of a split examined against the remaining deltas of
  \<open>setToTransformBy\<close>. The code moves \<open>t\<close> to the last result of each step, so the
  results before it are never transformed again: with \<open>x\<close> split by \<open>S\<close> into \<open>xl\<close>
  and \<open>xr\<close>, only \<open>xr\<close> is transformed by \<open>T\<close>, where the specification's wording gives
  \<open>xlT\<close> and \<open>xrT\<close>.
\<close>

theorem transformDelta_skips_split_results:
  "transformDelta split_transform [''x''] [''S'', ''T''] True = Some [''xl'', ''xrT'']
   \<and> transformDelta_spec split_transform [''x''] [''S'', ''T''] True = [''xlT'', ''xrT'']"
  by code_simp

text \<open>
  Where no transformation splits (each gives exactly one delta), the code and the
  specification's wording agree.
\<close>

lemma transformItem_spec_single:
  assumes "\<forall>a b. \<exists>r. transform (Some a) b isStrong = [r]"
  shows "\<exists>r. transformItem_spec transform isStrong By d = [r]"
proof (induction By arbitrary: d)
  case Nil
  show ?case by simp
next
  case (Cons b By)
  from assms obtain r where "transform (Some d) b isStrong = [r]" by blast
  with Cons [of r] show ?case by simp
qed

lemma transformDelta_by_single:
  assumes "\<forall>a b. \<exists>r. transform (Some a) b isStrong = [r]"
  shows "transformDelta_by transform By isStrong (0, [d]) =
           (0, transformItem_spec transform isStrong By d)"
proof (induction By arbitrary: d)
  case Nil
  show ?case by simp
next
  case (Cons b By)
  from assms obtain r where "transform (Some d) b isStrong = [r]" by blast
  with Cons [of r] show ?case
    by (simp add: js_get_def splice_def)
qed

lemma transformDelta_to_single:
  assumes "\<forall>a b. \<exists>r. transform (Some a) b isStrong = [r]"
  shows "transformDelta_to transform By isStrong 0 [d] =
           Some (transformItem_spec transform isStrong By d)"
proof -
  from assms transformItem_spec_single [of transform isStrong By d] obtain r
    where r: "transformItem_spec transform isStrong By d = [r]" by blast
  show ?thesis
    by (subst transformDelta_to.simps, simp add: transformDelta_by_single [of transform isStrong By d] assms r,
        subst transformDelta_to.simps, simp)
qed

lemma transformDelta_results_single:
  assumes "\<forall>a b. \<exists>r. transform (Some a) b isStrong = [r]"
  shows "transformDelta_results transform D By isStrong results =
           Some (results @ transformDelta_spec transform D By isStrong)"
  using assms
  by (induction D arbitrary: results)
     (simp_all add: transformDelta_to_single [of transform isStrong] transformDelta_spec_def)

lemma transformDelta_without_splits:
  assumes "\<forall>a b. \<exists>r. transform (Some a) b isStrong = [r]"
  shows "transformDelta transform D By isStrong =
           Some (transformDelta_spec transform D By isStrong)"
  using assms by (simp add: transformDelta_def transformDelta_results_single [of transform isStrong])


end
